theory Spec2Isabelle
  imports Main
begin

section \<open>JavaScript values, errors and the observable trace\<close>

text \<open>
  The connector of \<^verbatim>\<open>src/index.js\<close> handles values that come from outside: the
  bodies of HTTP responses, the object a credential initializer returns, the argument of
  \<^verbatim>\<open>setCredentials\<close>. They are modelled as JavaScript values. Numbers are restricted
  to integers; an object is the list of its properties, the first binding of a key being
  the property's value.
\<close>

datatype jsval =
    JUndefined
  | JNull
  | JBool bool
  | JNum int
  | JStr string
  | JArr "jsval list"
  | JObj "(string \<times> jsval) list"

text \<open>The truthiness test of \<^verbatim>\<open>if(v)\<close> and \<^verbatim>\<open>!v\<close>.\<close>

fun truthy :: "jsval \<Rightarrow> bool" where
  "truthy JUndefined = False"
| "truthy JNull = False"
| "truthy (JBool b) = b"
| "truthy (JNum i) = (i \<noteq> 0)"
| "truthy (JStr s) = (s \<noteq> [])"
| "truthy (JArr xs) = True"
| "truthy (JObj kvs) = True"

text \<open>
  What the code can throw. \<^verbatim>\<open>ApiAuthError\<close> is the class of the source and carries its
  message. \<^verbatim>\<open>TypeError\<close> and \<^verbatim>\<open>ReferenceError\<close> are raised by the language,
  \<^verbatim>\<open>FetchError\<close> by the HTTP client (a network failure, or a body that is not JSON);
  \<^verbatim>\<open>OtherError\<close> is anything else a caller-supplied callback throws.
\<close>

datatype js_error =
    ApiAuthError string
  | TypeError
  | ReferenceError
  | FetchError string
  | OtherError string

text \<open>
  Reading a property \<^verbatim>\<open>v.k\<close>, for the property names the source reads
  (\<^verbatim>\<open>access_token\<close>, \<^verbatim>\<open>refresh_token\<close>, \<^verbatim>\<open>error\<close>): on \<^verbatim>\<open>null\<close> and
  \<^verbatim>\<open>undefined\<close> the read throws a TypeError, on an object it is the property or
  \<^verbatim>\<open>undefined\<close>, on every other value it is \<^verbatim>\<open>undefined\<close>.
\<close>

fun get_prop :: "jsval \<Rightarrow> string \<Rightarrow> js_error + jsval" where
  "get_prop JUndefined k = Inl TypeError"
| "get_prop JNull k = Inl TypeError"
| "get_prop (JObj kvs) k = Inr (case map_of kvs k of None \<Rightarrow> JUndefined | Some v \<Rightarrow> v)"
| "get_prop v k = Inr JUndefined"

datatype outcome = Returned jsval | Thrown js_error

text \<open>
  An HTTP call as the client library receives it (\<^verbatim>\<open>fetch(full_url, fetchOpts)\<close>), and
  what comes back: the promise rejects, or it resolves to a response with a status and a
  body. The body is \<open>None\<close> when it is not JSON, so that \<^verbatim>\<open>response.json()\<close> rejects.
\<close>

record request =
  req_url :: string
  req_method :: string
  req_headers :: "(string \<times> string) list"
  req_body :: "jsval option"

datatype response = Response (status: nat) (body: "jsval option")

datatype fetch_outcome = Responded response | NetworkFailure string

datatype init_outcome = InitReturns jsval | InitThrows js_error

text \<open>
  The trace lists what the connector does to the outside, in order: an invocation of the
  credential initializer, an HTTP call, an event emitted to the subscribers, a line of
  \<^verbatim>\<open>console.error\<close>. The output of \<^verbatim>\<open>debug\<close> and \<^verbatim>\<open>verbose\<close> is not recorded;
  the evaluation of their arguments is modelled where it can throw.
\<close>

datatype event =
    EvInit
  | EvFetch request
  | EvEmit string jsval
  | EvConsoleError js_error

fun is_init :: "event \<Rightarrow> bool" where
  "is_init EvInit = True"
| "is_init e = False"

fun is_fetch :: "event \<Rightarrow> bool" where
  "is_fetch (EvFetch r) = True"
| "is_fetch e = False"

fun is_emit :: "event \<Rightarrow> bool" where
  "is_emit (EvEmit name v) = True"
| "is_emit e = False"

definition init_count :: "event list \<Rightarrow> nat" where
  "init_count tr = length (filter is_init tr)"

definition fetch_count :: "event list \<Rightarrow> nat" where
  "fetch_count tr = length (filter is_fetch tr)"

definition emit_count :: "event list \<Rightarrow> nat" where
  "emit_count tr = length (filter is_emit tr)"

text \<open>
  The environment: the HTTP transport, the listeners that are subscribed to the
  connector's events, and the string functions of the runtime and of the query-string
  library. The transport answers the \<open>k\<close>-th HTTP call of the connector (\<open>k\<close> calls were
  made before) from the request. The listeners are called by \<^verbatim>\<open>emit\<close>, one after the
  other: \<open>listeners E k name v\<close> is \<open>None\<close> when all of them return at the \<open>k\<close>-th
  \<^verbatim>\<open>emit\<close>, and the error when one of them throws. The string functions are parameters:
  no property below depends on what they compute. They are taken to return a string for
  every argument.
\<close>

record env =
  fetch :: "nat \<Rightarrow> request \<Rightarrow> fetch_outcome"
  listeners :: "nat \<Rightarrow> string \<Rightarrow> jsval \<Rightarrow> js_error option"
  JSON_stringify :: "jsval \<Rightarrow> string"
  qs_stringify :: "jsval \<Rightarrow> string"
  encodeURIComponent :: "jsval \<Rightarrow> string"
  toString :: "jsval \<Rightarrow> string"

section \<open>The connector\<close>

text \<open>
  The fields of \<^verbatim>\<open>TDAConnector\<close>, and the trace. The credential initializer is a
  callback; its \<open>k\<close>-th invocation settles with \<open>f k\<close>. The model runs one call of the
  connector at a time: a call starts when the one before has settled, and neither the
  initializer nor a listener calls back into the connector.
\<close>

record conn =
  client_id :: string
  redirect_uri :: string
  access_token :: jsval
  refresh_token :: jsval
  credentialInitializer :: "(nat \<Rightarrow> init_outcome) option"
  base_url :: string
  trace :: "event list"

definition TDAConnector :: "string \<Rightarrow> string \<Rightarrow> (nat \<Rightarrow> init_outcome) option \<Rightarrow> conn" where
  "TDAConnector cid ruri ini =
     \<lparr> client_id = cid, redirect_uri = ruri, access_token = JNull, refresh_token = JNull,
       credentialInitializer = ini, base_url = ''https://api.tdameritrade.com/v1'',
       trace = [] \<rparr>"

text \<open>
  \<^verbatim>\<open>this.emit(name, v)\<close>, inherited from \<^verbatim>\<open>EventEmitter\<close>: the listeners run
  synchronously, and the error of a listener that throws leaves \<^verbatim>\<open>emit\<close>.
\<close>

definition emit :: "env \<Rightarrow> string \<Rightarrow> jsval \<Rightarrow> conn \<Rightarrow> js_error option \<times> conn" where
  "emit E name v st =
     (listeners E (emit_count (trace st)) name v, st\<lparr>trace := trace st @ [EvEmit name v]\<rparr>)"

definition console_error :: "js_error \<Rightarrow> conn \<Rightarrow> conn" where
  "console_error e st = st\<lparr>trace := trace st @ [EvConsoleError e]\<rparr>"

text \<open>\<^verbatim>\<open>setCredentials(creds)\<close>: each token is overwritten when the argument has a truthy one.\<close>

definition setCredentials :: "jsval \<Rightarrow> conn \<Rightarrow> conn" where
  "setCredentials creds st =
     (if truthy creds then
        (let st1 = (case get_prop creds ''access_token'' of
                      Inr a \<Rightarrow> if truthy a then st\<lparr>access_token := a\<rparr> else st
                    | Inl e \<Rightarrow> st)
         in (case get_prop creds ''refresh_token'' of
               Inr r \<Rightarrow> if truthy r then st1\<lparr>refresh_token := r\<rparr> else st1
             | Inl e \<Rightarrow> st1))
      else st)"

text \<open>
  The first statement of \<^verbatim>\<open>doFetch\<close>: without an access token and with an initializer,
  the initializer is invoked and the tokens of its result are adopted. The reads of
  \<^verbatim>\<open>creds.access_token\<close> are outside the \<^verbatim>\<open>try\<close> block: an error here leaves
  \<^verbatim>\<open>doFetch\<close> at once.
\<close>

definition bootstrap :: "conn \<Rightarrow> js_error option \<times> conn" where
  "bootstrap st =
     (if \<not> truthy (access_token st) then
        (case credentialInitializer st of
           None \<Rightarrow> (None, st)
         | Some f \<Rightarrow>
             (let st1 = st\<lparr>trace := trace st @ [EvInit]\<rparr> in
              case f (init_count (trace st)) of
                InitThrows e \<Rightarrow> (Some e, st1)
              | InitReturns creds \<Rightarrow>
                  (case get_prop creds ''access_token'' of
                     Inl e \<Rightarrow> (Some e, st1)
                   | Inr a \<Rightarrow>
                       (let st2 = (if truthy a then st1\<lparr>access_token := a\<rparr> else st1) in
                        case get_prop creds ''refresh_token'' of
                          Inl e \<Rightarrow> (Some e, st2)
                        | Inr r \<Rightarrow>
                            (None, if truthy r then st2\<lparr>refresh_token := r\<rparr> else st2)))))
      else (None, st))"

text \<open>
  The \<^verbatim>\<open>options\<close> argument of \<^verbatim>\<open>doFetch\<close>. A missing object and a missing or zero
  \<^verbatim>\<open>retries\<close> count as zero retries.
\<close>

record options =
  headers :: "(string \<times> string) list option"
  retries :: "int option"

definition retries_of :: "options option \<Rightarrow> int" where
  "retries_of opts =
     (case opts of None \<Rightarrow> 0 | Some opt \<Rightarrow> (case retries opt of None \<Rightarrow> 0 | Some r \<Rightarrow> r))"

definition headers_of :: "options option \<Rightarrow> (string \<times> string) list option" where
  "headers_of opts = (case opts of None \<Rightarrow> None | Some opt \<Rightarrow> headers opt)"

text \<open>The object \<^verbatim>\<open>options\<close> after \<^verbatim>\<open>options.retries ++\<close>.\<close>

definition bump_retries :: "options option \<Rightarrow> options option" where
  "bump_retries opts = Some \<lparr> headers = headers_of opts, retries = Some (retries_of opts + 1) \<rparr>"

text \<open>
  The request \<^verbatim>\<open>doFetch\<close> assembles: the default headers with the bearer token, or the
  caller's headers in their place; the query string; the payload as it is under the form
  content type, serialized otherwise.
\<close>

definition fetch_headers :: "env \<Rightarrow> options option \<Rightarrow> conn \<Rightarrow> (string \<times> string) list" where
  "fetch_headers E opts st =
     (case headers_of opts of
        Some hs \<Rightarrow> hs
      | None \<Rightarrow>
          [(''Content-Type'', ''application/json''),
           (''User-Agent'', ''Apigrate NodeJS Connector/1.0.0'')] @
          (if truthy (access_token st)
           then [(''Authorization'', ''Bearer '' @ toString E (access_token st))] else []))"

definition build_request ::
  "env \<Rightarrow> string \<Rightarrow> string \<Rightarrow> jsval \<Rightarrow> jsval \<Rightarrow> options option \<Rightarrow> conn \<Rightarrow> request" where
  "build_request E method url query payload opts st =
     (let hs = fetch_headers E opts st;
          qstring = (if truthy query then ''?'' @ qs_stringify E query else '''')
      in \<lparr> req_url = url @ qstring,
           req_method = method,
           req_headers = hs,
           req_body =
             (if truthy payload then
                (if map_of hs ''Content-Type'' = Some ''application/x-www-form-urlencoded''
                 then Some payload
                 else Some (JStr (JSON_stringify E payload)))
              else None) \<rparr>)"

text \<open>
  \<^verbatim>\<open>handleNotOk(response)\<close>. The body is parsed first. The argument of
  \<^verbatim>\<open>debug(result.error)\<close> is evaluated before the authentication error is built. The
  last branch of the source throws a variable that is not in scope.
\<close>

definition handleNotOk :: "env \<Rightarrow> response \<Rightarrow> outcome" where
  "handleNotOk E resp =
     (case body resp of
        None \<Rightarrow> Thrown (FetchError ''invalid-json'')
      | Some result \<Rightarrow>
          if 300 \<le> status resp \<and> status resp < 400 then Returned result
          else if 400 \<le> status resp \<and> status resp < 500 then
            (if status resp = 401 \<or> status resp = 403 then
               (case get_prop result ''error'' of
                  Inl e \<Rightarrow> Thrown e
                | Inr d \<Rightarrow> Thrown (ApiAuthError (JSON_stringify E result)))
             else Returned result)
          else if 500 \<le> status resp then Returned result
          else Thrown ReferenceError)"

text \<open>\<^verbatim>\<open>response.ok\<close>.\<close>

definition ok :: "response \<Rightarrow> bool" where
  "ok resp = (200 \<le> status resp \<and> status resp < 300)"

text \<open>The body of the \<^verbatim>\<open>try\<close> block of \<^verbatim>\<open>doFetch\<close>: one HTTP call and its classification.\<close>

definition dispatch :: "env \<Rightarrow> request \<Rightarrow> conn \<Rightarrow> outcome \<times> conn" where
  "dispatch E req st =
     (let st1 = st\<lparr>trace := trace st @ [EvFetch req]\<rparr> in
      case fetch E (fetch_count (trace st)) req of
        NetworkFailure m \<Rightarrow> (Thrown (FetchError m), st1)
      | Responded resp \<Rightarrow>
          if ok resp then
            (case body resp of
               None \<Rightarrow> (Thrown (FetchError ''invalid-json''), st1)
             | Some result \<Rightarrow> (Returned result, st1))
          else (handleNotOk E resp, st1))"

definition token_url :: string where
  "token_url = ''https://api.tdameritrade.com/v1/oauth2/token''"

definition form_options :: "options option" where
  "form_options =
     Some \<lparr> headers = Some [(''Content-Type'', ''application/x-www-form-urlencoded'')],
            retries = None \<rparr>"

definition refresh_payload :: "env \<Rightarrow> jsval \<Rightarrow> conn \<Rightarrow> string" where
  "refresh_payload E rt st =
     ''grant_type=refresh_token&refresh_token='' @ encodeURIComponent E rt
     @ ''&client_id='' @ encodeURIComponent E (JStr (client_id st))
     @ ''&redirect_uri='' @ encodeURIComponent E (JStr (redirect_uri st))"

definition code_payload :: "env \<Rightarrow> jsval \<Rightarrow> conn \<Rightarrow> string" where
  "code_payload E code st =
     ''grant_type=authorization_code&refresh_token=&access_type=offline''
     @ ''&code='' @ encodeURIComponent E code
     @ ''&client_id='' @ encodeURIComponent E (JStr (client_id st))
     @ ''&redirect_uri='' @ encodeURIComponent E (JStr (redirect_uri st))"

text \<open>
  \<^verbatim>\<open>doFetch\<close> and \<^verbatim>\<open>refreshAccessToken\<close> call each other, and nothing in the source
  bounds the recursion: a refresh goes through \<^verbatim>\<open>doFetch\<close> with a new options object.
  The first argument is fuel; \<open>None\<close> says that the fuel did not suffice.

  In the \<^verbatim>\<open>catch\<close> block, an authentication error with \<^verbatim>\<open>options.retries < 1\<close> leads
  to a refresh with the held refresh token (whose result is dropped) and to a second
  \<^verbatim>\<open>doFetch\<close> with the counter incremented; with a larger counter it is thrown again.
  Every other error is logged and thrown again.

  \<^verbatim>\<open>refreshAccessToken\<close> emits the result of its \<^verbatim>\<open>doFetch\<close>, hands it to
  \<^verbatim>\<open>setCredentials\<close> and returns it. All three statements are in the \<^verbatim>\<open>try\<close> block:
  an error of \<^verbatim>\<open>doFetch\<close> or of a listener is logged, and the method returns
  \<^verbatim>\<open>undefined\<close> without doing the statements that follow.
\<close>

fun doFetch ::
    "nat \<Rightarrow> env \<Rightarrow> string \<Rightarrow> string \<Rightarrow> jsval \<Rightarrow> jsval \<Rightarrow> options option \<Rightarrow> conn
      \<Rightarrow> (outcome \<times> conn) option"
  and refreshAccessToken :: "nat \<Rightarrow> env \<Rightarrow> jsval \<Rightarrow> conn \<Rightarrow> (outcome \<times> conn) option"
where
  "doFetch 0 E method url query payload opts st = None"
| "doFetch (Suc n) E method url query payload opts st =
     (case bootstrap st of
        (Some e, st1) \<Rightarrow> Some (Thrown e, st1)
      | (None, st1) \<Rightarrow>
          (case dispatch E (build_request E method url query payload opts st1) st1 of
             (Returned result, st2) \<Rightarrow> Some (Returned result, st2)
           | (Thrown (ApiAuthError m), st2) \<Rightarrow>
               if retries_of opts < 1 then
                 (case refreshAccessToken n E (refresh_token st2) st2 of
                    None \<Rightarrow> None
                  | Some (r, st3) \<Rightarrow>
                      doFetch n E method url query payload (bump_retries opts) st3)
               else Some (Thrown (ApiAuthError m), st2)
           | (Thrown err, st2) \<Rightarrow> Some (Thrown err, console_error err st2)))"
| "refreshAccessToken n E rt st =
     (case doFetch n E ''POST'' token_url JNull (JStr (refresh_payload E rt st)) form_options st of
        None \<Rightarrow> None
      | Some (Thrown ex, st1) \<Rightarrow> Some (Returned JUndefined, console_error ex st1)
      | Some (Returned result, st1) \<Rightarrow>
          (case emit E ''token'' result st1 of
             (Some ex, st2) \<Rightarrow> Some (Returned JUndefined, console_error ex st2)
           | (None, st2) \<Rightarrow> Some (Returned result, setCredentials result st2)))"

text \<open>\<^verbatim>\<open>getAccessToken(code)\<close>: the same exchange with the authorization-code grant.\<close>

definition getAccessToken :: "nat \<Rightarrow> env \<Rightarrow> jsval \<Rightarrow> conn \<Rightarrow> (outcome \<times> conn) option" where
  "getAccessToken n E code st =
     (case doFetch n E ''POST'' token_url JNull (JStr (code_payload E code st)) form_options st of
        None \<Rightarrow> None
      | Some (Thrown ex, st1) \<Rightarrow> Some (Returned JUndefined, console_error ex st1)
      | Some (Returned result, st1) \<Rightarrow>
          (case emit E ''token'' result st1 of
             (Some ex, st2) \<Rightarrow> Some (Returned JUndefined, console_error ex st2)
           | (None, st2) \<Rightarrow> Some (Returned result, setCredentials result st2)))"

section \<open>The domain methods\<close>

text \<open>Each one is a \<^verbatim>\<open>GET\<close> through \<^verbatim>\<open>doFetch\<close>, with no payload and no options.\<close>

definition getAccounts :: "nat \<Rightarrow> env \<Rightarrow> jsval \<Rightarrow> conn \<Rightarrow> (outcome \<times> conn) option" where
  "getAccounts n E parameters st =
     doFetch n E ''GET'' (base_url st @ ''/accounts'') parameters JUndefined None st"

definition getAccount :: "nat \<Rightarrow> env \<Rightarrow> string \<Rightarrow> jsval \<Rightarrow> conn \<Rightarrow> (outcome \<times> conn) option" where
  "getAccount n E accountId parameters st =
     doFetch n E ''GET'' (base_url st @ ''/accounts/'' @ accountId) parameters JUndefined None st"

definition searchInstruments ::
  "nat \<Rightarrow> env \<Rightarrow> string \<Rightarrow> string \<Rightarrow> conn \<Rightarrow> (outcome \<times> conn) option" where
  "searchInstruments n E symbol projection st =
     doFetch n E ''GET''
       (base_url st @ ''/instruments?symbol='' @ symbol @ ''&projection='' @ projection)
       JUndefined JUndefined None st"

definition getQuote :: "nat \<Rightarrow> env \<Rightarrow> string \<Rightarrow> conn \<Rightarrow> (outcome \<times> conn) option" where
  "getQuote n E symbol st =
     doFetch n E ''GET'' (base_url st @ ''/marketdata/'' @ symbol @ ''/quotes'')
       JUndefined JUndefined None st"

definition getPriceHistory ::
  "nat \<Rightarrow> env \<Rightarrow> string \<Rightarrow> jsval \<Rightarrow> conn \<Rightarrow> (outcome \<times> conn) option" where
  "getPriceHistory n E symbol parameters st =
     doFetch n E ''GET'' (base_url st @ ''/marketdata/'' @ symbol @ ''/pricehistory'')
       parameters JUndefined None st"

definition getTransactions ::
  "nat \<Rightarrow> env \<Rightarrow> string \<Rightarrow> jsval \<Rightarrow> conn \<Rightarrow> (outcome \<times> conn) option" where
  "getTransactions n E accountId parameters st =
     doFetch n E ''GET'' (base_url st @ ''/accounts/'' @ accountId @ ''/transactions'')
       parameters JUndefined None st"

definition getTransaction ::
  "nat \<Rightarrow> env \<Rightarrow> string \<Rightarrow> string \<Rightarrow> conn \<Rightarrow> (outcome \<times> conn) option" where
  "getTransaction n E accountId transactionId st =
     doFetch n E ''GET''
       (base_url st @ ''/accounts/'' @ accountId @ ''/transactions/'' @ transactionId)
       JUndefined JUndefined None st"

text \<open>A call of a domain method, as data, and a caller that makes one call after another.\<close>

datatype api_call =
    GetAccounts jsval
  | GetAccount string jsval
  | SearchInstruments string string
  | GetQuote string
  | GetPriceHistory string jsval
  | GetTransactions string jsval
  | GetTransaction string string

fun api :: "nat \<Rightarrow> env \<Rightarrow> api_call \<Rightarrow> conn \<Rightarrow> (outcome \<times> conn) option" where
  "api n E (GetAccounts ps) st = getAccounts n E ps st"
| "api n E (GetAccount a ps) st = getAccount n E a ps st"
| "api n E (SearchInstruments s p) st = searchInstruments n E s p st"
| "api n E (GetQuote s) st = getQuote n E s st"
| "api n E (GetPriceHistory s ps) st = getPriceHistory n E s ps st"
| "api n E (GetTransactions a ps) st = getTransactions n E a ps st"
| "api n E (GetTransaction a t) st = getTransaction n E a t st"


section \<open>Concrete environments\<close>

text \<open>
  Sample instances of the parameters, for evaluating the model: listeners that return,
  string functions that return a string argument as it is and print an object of one
  string property, and a connector that holds a token pair. In the second environment a
  listener throws at every \<^verbatim>\<open>emit\<close>.
\<close>

definition sample_string :: "jsval \<Rightarrow> string" where
  "sample_string v = (case v of JStr s \<Rightarrow> s | _ \<Rightarrow> ''null'')"

definition sample_json :: "jsval \<Rightarrow> string" where
  "sample_json v =
     (case v of
        JNull \<Rightarrow> ''null''
      | JStr s \<Rightarrow> s
      | JObj [(k, JStr s)] \<Rightarrow> ''{'' @ k @ '':'' @ s @ ''}''
      | _ \<Rightarrow> ''{}'')"

definition quiet_listeners :: "nat \<Rightarrow> string \<Rightarrow> jsval \<Rightarrow> js_error option" where
  "quiet_listeners k name v = None"

definition failing_listener :: "nat \<Rightarrow> string \<Rightarrow> jsval \<Rightarrow> js_error option" where
  "failing_listener k name v = Some (OtherError ''listener failed'')"

definition sample_env :: "(nat \<Rightarrow> request \<Rightarrow> fetch_outcome) \<Rightarrow> env" where
  "sample_env f =
     \<lparr> fetch = f, listeners = quiet_listeners, JSON_stringify = sample_json,
       qs_stringify = sample_string, encodeURIComponent = sample_string,
       toString = sample_string \<rparr>"

definition sample_env_failing_listener :: "(nat \<Rightarrow> request \<Rightarrow> fetch_outcome) \<Rightarrow> env" where
  "sample_env_failing_listener f =
     \<lparr> fetch = f, listeners = failing_listener, JSON_stringify = sample_json,
       qs_stringify = sample_string, encodeURIComponent = sample_string,
       toString = sample_string \<rparr>"

definition sample_conn :: conn where
  "sample_conn =
     setCredentials (JObj [(''access_token'', JStr ''A1''), (''refresh_token'', JStr ''R1'')])
       (TDAConnector ''app'' ''cb'' None)"

definition new_tokens :: jsval where
  "new_tokens = JObj [(''access_token'', JStr ''A2''), (''refresh_token'', JStr ''R2'')]"

definition expired :: jsval where
  "expired = JObj [(''error'', JStr ''expired'')]"

definition quote :: jsval where
  "quote = JObj [(''symbol'', JStr ''IBM'')]"

text \<open>A server that accepts no bearer token; its token endpoint issues tokens.\<close>

definition server_denying :: "nat \<Rightarrow> request \<Rightarrow> fetch_outcome" where
  "server_denying k req =
     (if req_url req = token_url then Responded (Response 200 (Some new_tokens))
      else Responded (Response 401 (Some expired)))"

text \<open>A server that accepts the token \<^verbatim>\<open>A2\<close> only; its token endpoint issues it.\<close>

definition server_renewing :: "nat \<Rightarrow> request \<Rightarrow> fetch_outcome" where
  "server_renewing k req =
     (if req_url req = token_url then Responded (Response 200 (Some new_tokens))
      else if map_of (req_headers req) ''Authorization'' = Some ''Bearer A2''
           then Responded (Response 200 (Some quote))
           else Responded (Response 401 (Some expired)))"

text \<open>The same server, whose token endpoint answers its first request with 401.\<close>

definition server_token_401_once :: "nat \<Rightarrow> request \<Rightarrow> fetch_outcome" where
  "server_token_401_once k req =
     (if req_url req = token_url then
        (if k = 1 then Responded (Response 401 (Some expired))
         else Responded (Response 200 (Some new_tokens)))
      else if map_of (req_headers req) ''Authorization'' = Some ''Bearer A2''
           then Responded (Response 200 (Some quote))
           else Responded (Response 401 (Some expired)))"

text \<open>The same server, whose token endpoint answers its first request with 403.\<close>

definition server_token_403_once :: "nat \<Rightarrow> request \<Rightarrow> fetch_outcome" where
  "server_token_403_once k req =
     (if req_url req = token_url then
        (if k = 1 then Responded (Response 403 (Some expired))
         else Responded (Response 200 (Some new_tokens)))
      else if map_of (req_headers req) ''Authorization'' = Some ''Bearer A2''
           then Responded (Response 200 (Some quote))
           else Responded (Response 401 (Some expired)))"

text \<open>
  A server that accepts no bearer token and answers 401, the first time with an error
  object and later with the JSON body \<^verbatim>\<open>null\<close>; its token endpoint issues tokens.
\<close>

definition server_401_then_null :: "nat \<Rightarrow> request \<Rightarrow> fetch_outcome" where
  "server_401_then_null k req =
     (if req_url req = token_url then Responded (Response 200 (Some new_tokens))
      else if k = 0 then Responded (Response 401 (Some expired))
           else Responded (Response 401 (Some JNull)))"

text \<open>A token endpoint that answers the first request with 401 and issues tokens later.\<close>

definition server_token_401_first :: "nat \<Rightarrow> request \<Rightarrow> fetch_outcome" where
  "server_token_401_first k req =
     (if k = 0 then Responded (Response 401 (Some expired))
      else Responded (Response 200 (Some new_tokens)))"

text \<open>A token endpoint that answers with status 400 and a body that has tokens.\<close>

definition server_400_tokens :: "nat \<Rightarrow> request \<Rightarrow> fetch_outcome" where
  "server_400_tokens k req = Responded (Response 400 (Some new_tokens))"

text \<open>A server that answers every request with 401, the token endpoint included.\<close>

definition server_401 :: "nat \<Rightarrow> request \<Rightarrow> fetch_outcome" where
  "server_401 k req = Responded (Response 401 (Some expired))"

text \<open>A server that answers 401 with the JSON body \<^verbatim>\<open>null\<close>.\<close>

definition server_401_null :: "nat \<Rightarrow> request \<Rightarrow> fetch_outcome" where
  "server_401_null k req = Responded (Response 401 (Some JNull))"

text \<open>A server that is not reachable.\<close>

definition server_down :: "nat \<Rightarrow> request \<Rightarrow> fetch_outcome" where
  "server_down k req = NetworkFailure ''ECONNREFUSED''"

text \<open>A token endpoint that rejects the grant with status 400.\<close>

definition invalid_grant :: jsval where
  "invalid_grant = JObj [(''error'', JStr ''invalid_grant'')]"

definition server_rejecting :: "nat \<Rightarrow> request \<Rightarrow> fetch_outcome" where
  "server_rejecting k req = Responded (Response 400 (Some invalid_grant))"

text \<open>A server that answers every request with 200.\<close>

definition server_ok :: "nat \<Rightarrow> request \<Rightarrow> fetch_outcome" where
  "server_ok k req =
     (if req_url req = token_url then Responded (Response 200 (Some new_tokens))
      else Responded (Response 200 (Some quote)))"



definition init_null :: "nat \<Rightarrow> init_outcome" where
  "init_null k = InitReturns JNull"

text \<open>The requests of the sample runs: a quote under a bearer token, and the two grants.\<close>

definition quote_request :: "string \<Rightarrow> request" where
  "quote_request tok =
     \<lparr> req_url = ''https://api.tdameritrade.com/v1/marketdata/IBM/quotes'',
       req_method = ''GET'',
       req_headers =
         [(''Content-Type'', ''application/json''),
          (''User-Agent'', ''Apigrate NodeJS Connector/1.0.0''),
          (''Authorization'', ''Bearer '' @ tok)],
       req_body = None \<rparr>"

definition anonymous_quote_request :: request where
  "anonymous_quote_request =
     \<lparr> req_url = ''https://api.tdameritrade.com/v1/marketdata/IBM/quotes'',
       req_method = ''GET'',
       req_headers =
         [(''Content-Type'', ''application/json''),
          (''User-Agent'', ''Apigrate NodeJS Connector/1.0.0'')],
       req_body = None \<rparr>"

definition token_request :: "string \<Rightarrow> request" where
  "token_request payload =
     \<lparr> req_url = ''https://api.tdameritrade.com/v1/oauth2/token'',
       req_method = ''POST'',
       req_headers = [(''Content-Type'', ''application/x-www-form-urlencoded'')],
       req_body = Some (JStr payload) \<rparr>"

definition refresh_request :: request where
  "refresh_request =
     token_request ''grant_type=refresh_token&refresh_token=R1&client_id=app&redirect_uri=cb''"

definition code_request :: request where
  "code_request =
     token_request
       ''grant_type=authorization_code&refresh_token=&access_type=offline&code=c0de&client_id=app&redirect_uri=cb''"

section \<open>Lemmas\<close>

lemmas sample_defs =
  sample_env_def sample_env_failing_listener_def quiet_listeners_def failing_listener_def
  sample_string_def sample_json_def sample_conn_def TDAConnector_def
  new_tokens_def expired_def quote_def invalid_grant_def
  quote_request_def anonymous_quote_request_def token_request_def refresh_request_def
  code_request_def token_url_def form_options_def

lemmas model_defs =
  bootstrap_def dispatch_def handleNotOk_def ok_def build_request_def fetch_headers_def
  headers_of_def retries_of_def bump_retries_def setCredentials_def emit_def console_error_def
  refresh_payload_def code_payload_def fetch_count_def init_count_def emit_count_def Let_def

lemmas api_defs =
  getAccounts_def getAccount_def searchInstruments_def getQuote_def
  getPriceHistory_def getTransactions_def getTransaction_def

subsection \<open>Property reads and \<^verbatim>\<open>setCredentials\<close>\<close>

lemma get_prop_defined:
  "v \<noteq> JNull \<Longrightarrow> v \<noteq> JUndefined \<Longrightarrow> \<exists>x. get_prop v k = Inr x"
  by (cases v) auto

lemma setCredentials_trace: "trace (setCredentials v st) = trace st"
  by (cases v) (auto simp: setCredentials_def Let_def split: sum.splits option.splits)


lemma setCredentials_adopts:
  "get_prop v ''access_token'' = Inr a \<Longrightarrow> truthy a \<Longrightarrow> access_token (setCredentials v st) = a"
  "get_prop v ''refresh_token'' = Inr r \<Longrightarrow> truthy r \<Longrightarrow> refresh_token (setCredentials v st) = r"
  by (cases v; auto simp: setCredentials_def Let_def split: sum.splits option.splits)+

subsection \<open>The bootstrap\<close>


lemma bootstrap_no_initializer: "credentialInitializer st = None \<Longrightarrow> bootstrap st = (None, st)"
  by (simp add: bootstrap_def)



subsection \<open>The classification of a response\<close>

lemma dispatch_state: "snd (dispatch E req st) = st\<lparr>trace := trace st @ [EvFetch req]\<rparr>"
  by (simp add: dispatch_def Let_def split: fetch_outcome.splits option.splits)

lemma dispatch_ok:
  "fetch E (fetch_count (trace st)) req = Responded (Response s (Some b))
   \<Longrightarrow> 200 \<le> s \<Longrightarrow> s < 300
   \<Longrightarrow> dispatch E req st = (Returned b, st\<lparr>trace := trace st @ [EvFetch req]\<rparr>)"
  by (simp add: dispatch_def ok_def Let_def)

lemma handleNotOk_auth:
  "s = 401 \<or> s = 403 \<Longrightarrow> b \<noteq> JNull \<Longrightarrow> b \<noteq> JUndefined
   \<Longrightarrow> handleNotOk E (Response s (Some b)) = Thrown (ApiAuthError (JSON_stringify E b))"
  using get_prop_defined [of b "''error''"] by (auto simp: handleNotOk_def)

lemma handleNotOk_passed:
  "300 \<le> s \<Longrightarrow> s \<noteq> 401 \<Longrightarrow> s \<noteq> 403 \<Longrightarrow> handleNotOk E (Response s (Some b)) = Returned b"
  by (auto simp: handleNotOk_def)

lemma dispatch_auth:
  "fetch E (fetch_count (trace st)) req = Responded (Response s (Some b))
   \<Longrightarrow> s = 401 \<or> s = 403 \<Longrightarrow> b \<noteq> JNull \<Longrightarrow> b \<noteq> JUndefined
   \<Longrightarrow> dispatch E req st =
        (Thrown (ApiAuthError (JSON_stringify E b)), st\<lparr>trace := trace st @ [EvFetch req]\<rparr>)"
  using handleNotOk_auth [of s b E] by (auto simp: dispatch_def ok_def Let_def)

lemma dispatch_passed:
  "fetch E (fetch_count (trace st)) req = Responded (Response s (Some b))
   \<Longrightarrow> 300 \<le> s \<Longrightarrow> s \<noteq> 401 \<Longrightarrow> s \<noteq> 403
   \<Longrightarrow> dispatch E req st = (Returned b, st\<lparr>trace := trace st @ [EvFetch req]\<rparr>)"
  using handleNotOk_passed [of s E b] by (auto simp: dispatch_def ok_def Let_def)

lemma dispatch_returned:
  assumes "fetch E (fetch_count (trace st)) req = Responded (Response s (Some b))"
    and "200 \<le> s" and "s \<noteq> 401" and "s \<noteq> 403"
  shows "dispatch E req st = (Returned b, st\<lparr>trace := trace st @ [EvFetch req]\<rparr>)"
proof (cases "s < 300")
  case True
  with assms(1,2) show ?thesis by (rule dispatch_ok)
next
  case False
  then have "300 \<le> s" by simp
  with assms(1) show ?thesis using assms(3,4) by (rule dispatch_passed)
qed

subsection \<open>One pass of \<^verbatim>\<open>doFetch\<close>\<close>

lemma doFetch_returned:
  "bootstrap st0 = (None, st)
   \<Longrightarrow> dispatch E (build_request E m u q p opts st) st = (Returned v, st')
   \<Longrightarrow> doFetch (Suc n) E m u q p opts st0 = Some (Returned v, st')"
  by simp


lemma retries_bumped: "retries_of opts = 0 \<Longrightarrow> retries_of (bump_retries opts) = 1"
  by (simp add: bump_retries_def retries_of_def)

lemma refresh_needs_fuel: "refreshAccessToken n E rt st = Some x \<Longrightarrow> \<exists>k. n = Suc k"
  by (cases n) auto

lemma build_request_retry:
  "req_url (build_request E m u q p (bump_retries opts) st')
     = req_url (build_request E m u q p opts st)"
  "req_method (build_request E m u q p (bump_retries opts) st')
     = req_method (build_request E m u q p opts st)"
  "req_body (build_request E m u q p (bump_retries opts) st')
     = req_body (build_request E m u q p opts st)"
  by (simp_all add: build_request_def fetch_headers_def bump_retries_def headers_of_def Let_def
      split: option.splits)

subsection \<open>A refresh whose POST is not answered 401 or 403\<close>

lemma bootstrap_fetches:
  "bootstrap st = (x, st') \<Longrightarrow> filter is_fetch (trace st') = filter is_fetch (trace st)"
  by (auto simp: bootstrap_def Let_def
      split: if_splits option.splits init_outcome.splits sum.splits)

lemma dispatch_not_auth:
  assumes "\<And>s b. fetch E (fetch_count (trace st)) req = Responded (Response s (Some b))
                   \<Longrightarrow> s \<noteq> 401 \<and> s \<noteq> 403"
  shows "fst (dispatch E req st) \<noteq> Thrown (ApiAuthError msg)"
proof (cases "fetch E (fetch_count (trace st)) req")
  case (NetworkFailure m)
  then show ?thesis by (simp add: dispatch_def Let_def)
next
  case (Responded resp)
  show ?thesis
  proof (cases resp)
    case (Response s bd)
    show ?thesis
    proof (cases bd)
      case None
      then show ?thesis
        using Responded Response by (simp add: dispatch_def Let_def handleNotOk_def)
    next
      case (Some b)
      with assms Responded Response have "s \<noteq> 401 \<and> s \<noteq> 403" by simp
      then show ?thesis
        using Responded Response Some by (simp add: dispatch_def Let_def handleNotOk_def)
    qed
  qed
qed

text \<open>Such a refresh makes one HTTP call, whatever else it does.\<close>

lemma refresh_single_pass:
  assumes boot: "bootstrap st = (None, stb)"
    and answer: "\<And>s b. fetch E (fetch_count (trace stb))
                   (build_request E ''POST'' token_url JNull (JStr (refresh_payload E rt st))
                      form_options stb)
                   = Responded (Response s (Some b)) \<Longrightarrow> s \<noteq> 401 \<and> s \<noteq> 403"
    and run: "refreshAccessToken n E rt st = Some (r, st')"
  shows "filter is_fetch (trace st') =
           filter is_fetch (trace stb) @
             [EvFetch (build_request E ''POST'' token_url JNull (JStr (refresh_payload E rt st))
                         form_options stb)]"
proof -
  let ?req = "build_request E ''POST'' token_url JNull (JStr (refresh_payload E rt st))
                form_options stb"
  let ?stc = "stb\<lparr>trace := trace stb @ [EvFetch ?req]\<rparr>"
  from run obtain k where n: "n = Suc k"
    using refresh_needs_fuel by blast
  obtain res where d: "dispatch E ?req stb = (res, ?stc)"
    using dispatch_state [of E ?req stb] by (cases "dispatch E ?req stb") auto
  have na: "res \<noteq> Thrown (ApiAuthError msg)" for msg
    using dispatch_not_auth [of E stb ?req msg] answer d by simp
  show ?thesis
  proof (cases res)
    case (Returned v)
    then show ?thesis
      using run boot d unfolding n
      by (auto simp: emit_def console_error_def setCredentials_trace split: option.splits)
  next
    case (Thrown err)
    with na have "\<And>msg. err \<noteq> ApiAuthError msg" by simp
    then show ?thesis
      using run boot d Thrown unfolding n
      by (cases err) (auto simp: console_error_def)
  qed
qed

text \<open>And it returns, with any fuel.\<close>

lemma refresh_returns:
  assumes boot: "bootstrap st = (None, stb)"
    and answer: "\<And>s b. fetch E (fetch_count (trace stb))
                   (build_request E ''POST'' token_url JNull (JStr (refresh_payload E rt st))
                      form_options stb)
                   = Responded (Response s (Some b)) \<Longrightarrow> s \<noteq> 401 \<and> s \<noteq> 403"
  shows "\<exists>r st'. refreshAccessToken (Suc n) E rt st = Some (r, st')"
proof -
  let ?req = "build_request E ''POST'' token_url JNull (JStr (refresh_payload E rt st))
                form_options stb"
  let ?stc = "stb\<lparr>trace := trace stb @ [EvFetch ?req]\<rparr>"
  obtain res where d: "dispatch E ?req stb = (res, ?stc)"
    using dispatch_state [of E ?req stb] by (cases "dispatch E ?req stb") auto
  have na: "res \<noteq> Thrown (ApiAuthError msg)" for msg
    using dispatch_not_auth [of E stb ?req msg] answer d by simp
  show ?thesis
  proof (cases res)
    case (Returned v)
    then show ?thesis
      using boot d by (auto simp: emit_def split: option.splits)
  next
    case (Thrown err)
    with na have "\<And>msg. err \<noteq> ApiAuthError msg" by simp
    then show ?thesis
      using boot d Thrown by (cases err) auto
  qed
qed

subsection \<open>A held access token stays, and the initializer is not asked again\<close>





subsection \<open>A token endpoint that keeps answering 401\<close>

text \<open>
  The refresh goes through \<^verbatim>\<open>doFetch\<close> with a new options object, so its counter starts
  at zero again: when the token endpoint answers every request with 401 (or 403), each
  refresh starts another one, and no amount of fuel lets the call return.
\<close>

lemma token_401_never_returns:
  assumes always: "\<And>k req. req_url req = token_url
                     \<Longrightarrow> fetch E k req = Responded (Response 401 (Some b))"
    and body: "b \<noteq> JNull" "b \<noteq> JUndefined"
  shows "credentialInitializer st = None \<Longrightarrow>
         doFetch n E ''POST'' token_url JNull (JStr pl) form_options st = None"
proof (induction n arbitrary: st pl)
  case 0
  show ?case by simp
next
  case (Suc n)
  let ?req = "build_request E ''POST'' token_url JNull (JStr pl) form_options st"
  let ?st2 = "st\<lparr>trace := trace st @ [EvFetch ?req]\<rparr>"
  have url: "req_url ?req = token_url"
    by (simp add: build_request_def Let_def)
  have d: "dispatch E ?req st = (Thrown (ApiAuthError (JSON_stringify E b)), ?st2)"
    using always [OF url] body by (intro dispatch_auth) auto
  have "refreshAccessToken n E (refresh_token ?st2) ?st2 = None"
    using Suc.IH [of ?st2] Suc.prems by simp
  then show ?case
    using d bootstrap_no_initializer [OF Suc.prems]
    by (simp add: form_options_def retries_of_def)
qed

lemma auth_error_never_returns:
  assumes always: "\<And>k req. req_url req = token_url
                     \<Longrightarrow> fetch E k req = Responded (Response 401 (Some b))"
    and body: "b \<noteq> JNull" "b \<noteq> JUndefined"
    and ini: "credentialInitializer st = None"
    and fresh: "retries_of opts < 1"
    and first: "fetch E (fetch_count (trace st)) (build_request E m u q p opts st)
                  = Responded (Response s (Some b1))"
    and auth: "s = 401 \<or> s = 403" "b1 \<noteq> JNull" "b1 \<noteq> JUndefined"
  shows "doFetch n E m u q p opts st = None"
proof (cases n)
  case 0
  then show ?thesis by simp
next
  case (Suc k)
  let ?req = "build_request E m u q p opts st"
  let ?st2 = "st\<lparr>trace := trace st @ [EvFetch ?req]\<rparr>"
  have d: "dispatch E ?req st = (Thrown (ApiAuthError (JSON_stringify E b1)), ?st2)"
    using first auth by (rule dispatch_auth)
  have "credentialInitializer ?st2 = None" using ini by simp
  from token_401_never_returns [OF always body this]
  have "refreshAccessToken k E (refresh_token ?st2) ?st2 = None"
    by simp
  then show ?thesis
    unfolding Suc using d fresh bootstrap_no_initializer [OF ini] by simp
qed

lemma sample_never_returns: "getQuote n (sample_env server_401) ''IBM'' sample_conn = None"
proof -
  let ?E = "sample_env server_401"
  have always: "\<And>k req. req_url req = token_url
                  \<Longrightarrow> fetch ?E k req = Responded (Response 401 (Some expired))"
    by (simp add: sample_env_def server_401_def)
  have body: "expired \<noteq> JNull" "expired \<noteq> JUndefined"
    by (simp_all add: expired_def)
  have ini: "credentialInitializer sample_conn = None"
    by (simp add: sample_defs model_defs)
  have fresh: "retries_of None < 1"
    by (simp add: retries_of_def)
  have first: "fetch ?E (fetch_count (trace sample_conn)) req
                 = Responded (Response 401 (Some expired))" for req
    by (simp add: sample_env_def server_401_def)
  have auth: "(401::nat) = 401 \<or> (401::nat) = 403" by simp
  show ?thesis
    unfolding getQuote_def
    by (rule auth_error_never_returns [OF always body ini fresh first auth body])
qed

subsection \<open>More fuel does not change a result\<close>

lemma more_fuel:
  "(\<forall>m u q p opts st x.
      doFetch n E m u q p opts st = Some x \<longrightarrow> doFetch (Suc n) E m u q p opts st = Some x)
   \<and> (\<forall>rt st x.
      refreshAccessToken n E rt st = Some x \<longrightarrow> refreshAccessToken (Suc n) E rt st = Some x)"
proof (induction n)
  case 0
  show ?case by simp
next
  case (Suc n)
  have fetch_part: "doFetch (Suc (Suc n)) E m u q p opts st = Some x"
    if run: "doFetch (Suc n) E m u q p opts st = Some x" for m u q p opts st x
  proof (cases "bootstrap st")
    case (Pair e st1)
    show ?thesis
    proof (cases e)
      case (Some err)
      then show ?thesis using run Pair by simp
    next
      case None
      let ?req = "build_request E m u q p opts st1"
      obtain res st2 where d: "dispatch E ?req st1 = (res, st2)"
        by (cases "dispatch E ?req st1") auto
      show ?thesis
      proof (cases "(\<exists>msg. res = Thrown (ApiAuthError msg)) \<and> retries_of opts < 1")
        case False
        have "doFetch (Suc k) E m u q p opts st = doFetch (Suc n) E m u q p opts st" for k
          using False Pair None d
          by (cases res; auto split: js_error.splits)
        from this [of "Suc n"] run show ?thesis by simp
      next
        case True
        then obtain msg where res: "res = Thrown (ApiAuthError msg)"
          and lt: "retries_of opts < 1"
          by blast
        from run obtain r3 st3 where
          refr: "refreshAccessToken n E (refresh_token st2) st2 = Some (r3, st3)"
          and again: "doFetch n E m u q p (bump_retries opts) st3 = Some x"
          using Pair None d res lt by (auto split: option.splits)
        from Suc refr have refr': "refreshAccessToken (Suc n) E (refresh_token st2) st2 = Some (r3, st3)"
          by blast
        from Suc again have again': "doFetch (Suc n) E m u q p (bump_retries opts) st3 = Some x"
          by blast
        have "doFetch (Suc (Suc n)) E m u q p opts st =
                (case refreshAccessToken (Suc n) E (refresh_token st2) st2 of
                   None \<Rightarrow> None
                 | Some (r, st3) \<Rightarrow> doFetch (Suc n) E m u q p (bump_retries opts) st3)"
          using Pair None d res lt by (simp del: refreshAccessToken.simps doFetch.simps(2) add: doFetch.simps(2) [of "Suc n"])
        then show ?thesis
          using refr' again' by (simp del: refreshAccessToken.simps doFetch.simps)
      qed
    qed
  qed
  have "refreshAccessToken (Suc (Suc n)) E rt st = Some x"
    if run: "refreshAccessToken (Suc n) E rt st = Some x" for rt st x
  proof -
    from run obtain y where
      f: "doFetch (Suc n) E ''POST'' token_url JNull (JStr (refresh_payload E rt st))
            form_options st = Some y"
      by (auto split: option.splits)
    from fetch_part [OF f] run f show ?thesis
      by (simp del: doFetch.simps)
  qed
  with fetch_part show ?case by blast
qed

subsection \<open>The retry, when the classification raises the authentication error\<close>

text \<open>
  A request with a fresh retry counter is answered 401 or 403, the refresh returns, and the
  retry is answered 401 or 403 again, both times with a JSON body other than \<^verbatim>\<open>null\<close>:
  \<^verbatim>\<open>doFetch\<close> throws the authentication error of the retry, and the retry's HTTP call is
  the last thing it does. \<open>req1\<close> and \<open>req2\<close> are the requests of the two attempts;
  \<open>st1\<close> and \<open>st3\<close> are the connector after the first statement of \<^verbatim>\<open>doFetch\<close> in the
  first and in the second attempt, \<open>st2\<close> is the connector as the refresh leaves it.
\<close>

lemma auth_error_twice_is_raised:
  fixes E m u q p opts st1 st3
  defines "req1 \<equiv> build_request E m u q p opts st1"
    and "req2 \<equiv> build_request E m u q p (bump_retries opts) st3"
  assumes fresh: "retries_of opts = 0"
    and boot1: "bootstrap st0 = (None, st1)"
    and resp1: "fetch E (fetch_count (trace st1)) req1 = Responded (Response s1 (Some b1))"
    and auth1: "s1 = 401 \<or> s1 = 403" "b1 \<noteq> JNull" "b1 \<noteq> JUndefined"
    and refr: "refreshAccessToken n E (refresh_token st1)
                 (st1\<lparr>trace := trace st1 @ [EvFetch req1]\<rparr>) = Some (r, st2)"
    and boot2: "bootstrap st2 = (None, st3)"
    and resp2: "fetch E (fetch_count (trace st3)) req2 = Responded (Response s2 (Some b2))"
    and auth2: "s2 = 401 \<or> s2 = 403" "b2 \<noteq> JNull" "b2 \<noteq> JUndefined"
  shows "doFetch (Suc n) E m u q p opts st0 =
           Some (Thrown (ApiAuthError (JSON_stringify E b2)),
                 st3\<lparr>trace := trace st3 @ [EvFetch req2]\<rparr>)"
proof -
  from refr obtain k where n: "n = Suc k"
    using refresh_needs_fuel by blast
  have d1: "dispatch E req1 st1 =
              (Thrown (ApiAuthError (JSON_stringify E b1)),
               st1\<lparr>trace := trace st1 @ [EvFetch req1]\<rparr>)"
    using resp1 auth1 by (rule dispatch_auth)
  have d2: "dispatch E req2 st3 =
              (Thrown (ApiAuthError (JSON_stringify E b2)),
               st3\<lparr>trace := trace st3 @ [EvFetch req2]\<rparr>)"
    using resp2 auth2 by (rule dispatch_auth)
  have again: "doFetch n E m u q p (bump_retries opts) st2 =
                 Some (Thrown (ApiAuthError (JSON_stringify E b2)),
                       st3\<lparr>trace := trace st3 @ [EvFetch req2]\<rparr>)"
    unfolding n using boot2 d2 retries_bumped [OF fresh] by (simp add: req2_def)
  show ?thesis
    using fresh boot1 d1 refr again by (simp add: req1_def)
qed


lemma auth_error_twice_sample:
  "getQuote (Suc (Suc 0)) (sample_env server_denying) ''IBM'' sample_conn =
     Some (Thrown (ApiAuthError ''{error:expired}''),
       sample_conn\<lparr> access_token := JStr ''A2'', refresh_token := JStr ''R2'',
         trace := [EvFetch (quote_request ''A1''), EvFetch refresh_request,
                   EvEmit ''token'' new_tokens, EvFetch (quote_request ''A2'')] \<rparr>)"
proof -
  let ?E = "sample_env server_denying"
  let ?u = "''https://api.tdameritrade.com/v1/marketdata/IBM/quotes''"
  let ?st2 = "sample_conn\<lparr> access_token := JStr ''A2'', refresh_token := JStr ''R2'',
                trace := [EvFetch (quote_request ''A1''), EvFetch refresh_request,
                          EvEmit ''token'' new_tokens] \<rparr>"
  have fresh: "retries_of None = 0" by (simp add: retries_of_def)
  have boot1: "bootstrap sample_conn = (None, sample_conn)"
    by (simp add: sample_defs model_defs)
  have resp1: "fetch ?E (fetch_count (trace sample_conn))
                 (build_request ?E ''GET'' ?u JUndefined JUndefined None sample_conn)
               = Responded (Response 401 (Some expired))"
    by (simp add: server_denying_def sample_defs model_defs)
  have auth: "(401::nat) = 401 \<or> (401::nat) = 403" "expired \<noteq> JNull" "expired \<noteq> JUndefined"
    by (simp_all add: expired_def)
  have refr: "refreshAccessToken (Suc 0) ?E (refresh_token sample_conn)
                (sample_conn\<lparr>trace := trace sample_conn @
                   [EvFetch (build_request ?E ''GET'' ?u JUndefined JUndefined None sample_conn)]\<rparr>)
              = Some (Returned new_tokens, ?st2)"
    by (simp add: server_denying_def sample_defs model_defs)
  have boot2: "bootstrap ?st2 = (None, ?st2)"
    by (simp add: sample_defs model_defs)
  have resp2: "fetch ?E (fetch_count (trace ?st2))
                 (build_request ?E ''GET'' ?u JUndefined JUndefined (bump_retries None) ?st2)
               = Responded (Response 401 (Some expired))"
    by (simp add: server_denying_def sample_defs model_defs)
  show ?thesis
    using auth_error_twice_is_raised [OF fresh boot1 resp1 auth refr boot2 resp2 auth]
    by (simp add: getQuote_def sample_defs model_defs del: doFetch.simps)
qed


text \<open>
  A request with a fresh retry counter is answered 401 or 403 with a JSON body other than
  \<^verbatim>\<open>null\<close>, the refresh POST is not answered 401 or 403, and the retry is answered with a
  2xx status: \<^verbatim>\<open>doFetch\<close> returns the parsed body of the retry, and its HTTP calls are
  the first attempt, one refresh POST and one retry. \<open>req1\<close>, \<open>post\<close> and \<open>req2\<close> are the
  three requests; \<open>stb\<close> is the connector after the first statement of the refresh's
  \<^verbatim>\<open>doFetch\<close>.
\<close>

lemma auth_error_once_is_retried:
  fixes E m u q p opts st1 stb st3
  defines "req1 \<equiv> build_request E m u q p opts st1"
    and "post \<equiv> build_request E ''POST'' token_url JNull
                   (JStr (refresh_payload E (refresh_token st1) st1)) form_options stb"
    and "req2 \<equiv> build_request E m u q p (bump_retries opts) st3"
  assumes fresh: "retries_of opts = 0"
    and boot1: "bootstrap st0 = (None, st1)"
    and resp1: "fetch E (fetch_count (trace st1)) req1 = Responded (Response s1 (Some b1))"
    and auth1: "s1 = 401 \<or> s1 = 403" "b1 \<noteq> JNull" "b1 \<noteq> JUndefined"
    and bootr: "bootstrap (st1\<lparr>trace := trace st1 @ [EvFetch req1]\<rparr>) = (None, stb)"
    and respr: "\<And>s b. fetch E (fetch_count (trace stb)) post = Responded (Response s (Some b))
                  \<Longrightarrow> s \<noteq> 401 \<and> s \<noteq> 403"
    and refr: "refreshAccessToken n E (refresh_token st1)
                 (st1\<lparr>trace := trace st1 @ [EvFetch req1]\<rparr>) = Some (r, st2)"
    and boot2: "bootstrap st2 = (None, st3)"
    and resp2: "fetch E (fetch_count (trace st3)) req2 = Responded (Response s2 (Some b2))"
    and ok2: "200 \<le> s2" "s2 < 300"
  shows "doFetch (Suc n) E m u q p opts st0 =
           Some (Returned b2, st3\<lparr>trace := trace st3 @ [EvFetch req2]\<rparr>)
         \<and> filter is_fetch (trace st3 @ [EvFetch req2]) =
             filter is_fetch (trace st0) @ [EvFetch req1, EvFetch post, EvFetch req2]
         \<and> req_method req2 = req_method req1
         \<and> req_url req2 = req_url req1
         \<and> req_body req2 = req_body req1"
proof -
  let ?st1' = "st1\<lparr>trace := trace st1 @ [EvFetch req1]\<rparr>"
  from refr obtain k where n: "n = Suc k"
    using refresh_needs_fuel by blast
  have d1: "dispatch E req1 st1 = (Thrown (ApiAuthError (JSON_stringify E b1)), ?st1')"
    using resp1 auth1 by (rule dispatch_auth)
  have d2: "dispatch E req2 st3 = (Returned b2, st3\<lparr>trace := trace st3 @ [EvFetch req2]\<rparr>)"
    using resp2 ok2 by (rule dispatch_ok)
  have again: "doFetch n E m u q p (bump_retries opts) st2 =
                 Some (Returned b2, st3\<lparr>trace := trace st3 @ [EvFetch req2]\<rparr>)"
    unfolding n using boot2 d2 by (simp add: req2_def)
  have result: "doFetch (Suc n) E m u q p opts st0 =
                  Some (Returned b2, st3\<lparr>trace := trace st3 @ [EvFetch req2]\<rparr>)"
    using fresh boot1 d1 refr again by (simp add: req1_def)
  have same: "refresh_payload E (refresh_token st1) ?st1' = refresh_payload E (refresh_token st1) st1"
    by (simp add: refresh_payload_def)
  have "filter is_fetch (trace st2) = filter is_fetch (trace stb) @ [EvFetch post]"
    using refresh_single_pass [OF bootr _ refr] respr unfolding same post_def by blast
  moreover have "filter is_fetch (trace stb) = filter is_fetch (trace st0) @ [EvFetch req1]"
    using bootstrap_fetches [OF bootr] bootstrap_fetches [OF boot1] by simp
  moreover have "filter is_fetch (trace st3) = filter is_fetch (trace st2)"
    using boot2 by (rule bootstrap_fetches)
  ultimately have calls: "filter is_fetch (trace st3 @ [EvFetch req2]) =
      filter is_fetch (trace st0) @ [EvFetch req1, EvFetch post, EvFetch req2]"
    by simp
  show ?thesis
    using result calls by (simp add: req1_def req2_def build_request_retry)
qed


lemma auth_error_once_sample:
  "getQuote (Suc (Suc 0)) (sample_env server_renewing) ''IBM'' sample_conn =
     Some (Returned quote,
       sample_conn\<lparr> access_token := JStr ''A2'', refresh_token := JStr ''R2'',
         trace := [EvFetch (quote_request ''A1''), EvFetch refresh_request,
                   EvEmit ''token'' new_tokens, EvFetch (quote_request ''A2'')] \<rparr>)"
proof -
  let ?E = "sample_env server_renewing"
  let ?u = "''https://api.tdameritrade.com/v1/marketdata/IBM/quotes''"
  let ?req1 = "build_request ?E ''GET'' ?u JUndefined JUndefined None sample_conn"
  let ?st1 = "sample_conn\<lparr>trace := trace sample_conn @ [EvFetch ?req1]\<rparr>"
  let ?st2 = "sample_conn\<lparr> access_token := JStr ''A2'', refresh_token := JStr ''R2'',
                trace := [EvFetch (quote_request ''A1''), EvFetch refresh_request,
                          EvEmit ''token'' new_tokens] \<rparr>"
  have fresh: "retries_of None = 0" by (simp add: retries_of_def)
  have boot1: "bootstrap sample_conn = (None, sample_conn)"
    by (simp add: sample_defs model_defs)
  have resp1: "fetch ?E (fetch_count (trace sample_conn)) ?req1
               = Responded (Response 401 (Some expired))"
    by (simp add: server_renewing_def sample_defs model_defs)
  have auth: "(401::nat) = 401 \<or> (401::nat) = 403" "expired \<noteq> JNull" "expired \<noteq> JUndefined"
    by (simp_all add: expired_def)
  have bootr: "bootstrap ?st1 = (None, ?st1)"
    by (simp add: sample_defs model_defs)
  have respr: "s \<noteq> 401 \<and> s \<noteq> 403"
    if "fetch ?E (fetch_count (trace ?st1))
          (build_request ?E ''POST'' token_url JNull
             (JStr (refresh_payload ?E (refresh_token sample_conn) sample_conn))
             form_options ?st1)
        = Responded (Response s (Some b))" for s b
    using that by (simp add: server_renewing_def sample_defs model_defs)
  have refr: "refreshAccessToken (Suc 0) ?E (refresh_token sample_conn) ?st1
              = Some (Returned new_tokens, ?st2)"
    by (simp add: server_renewing_def sample_defs model_defs)
  have boot2: "bootstrap ?st2 = (None, ?st2)"
    by (simp add: sample_defs model_defs)
  have resp2: "fetch ?E (fetch_count (trace ?st2))
                 (build_request ?E ''GET'' ?u JUndefined JUndefined (bump_retries None) ?st2)
               = Responded (Response 200 (Some quote))"
    by (simp add: server_renewing_def sample_defs model_defs)
  have ok2: "(200::nat) \<le> 200" "(200::nat) < 300" by simp_all
  show ?thesis
    using auth_error_once_is_retried
      [OF fresh boot1 resp1 auth bootr respr refr boot2 resp2 ok2, THEN conjunct1]
    by (simp add: getQuote_def sample_defs model_defs del: doFetch.simps)
qed

section \<open>The retry after an authentication error\<close>

text \<open>
  C1. The claim: for one original request there is at most one refresh attempt, and a 401
  or 403 answer to the refresh POST itself does not lead to further refresh attempts.

  The code does not keep to it. \<^verbatim>\<open>refreshAccessToken\<close> sends its POST through
  \<^verbatim>\<open>doFetch\<close> with a new options object, whose counter is zero, so a 401 for that POST
  is caught like any other one: it starts a second refresh and then sends the first
  refresh again. Below, the connector holds the tokens \<^verbatim>\<open>A1\<close> and \<^verbatim>\<open>R1\<close>, the server
  rejects \<^verbatim>\<open>A1\<close>, and the token endpoint answers its first request with 401 and every
  later one with 200. One call of \<^verbatim>\<open>getQuote\<close> sends three refresh POSTs and emits the
  \<^verbatim>\<open>token\<close> event twice. (With a token endpoint that always answers 401 the call does
  not return at all: \<open>auth_error_never_returns\<close>, \<open>sample_never_returns\<close>.)
\<close>

theorem refresh_answered_401_refreshes_again:
  "getQuote (Suc (Suc (Suc n))) (sample_env server_token_401_once) ''IBM'' sample_conn =
     Some (Returned quote,
       sample_conn\<lparr> access_token := JStr ''A2'', refresh_token := JStr ''R2'',
         trace := [EvFetch (quote_request ''A1''),
                   EvFetch refresh_request,
                   EvFetch refresh_request, EvEmit ''token'' new_tokens,
                   EvFetch refresh_request, EvEmit ''token'' new_tokens,
                   EvFetch (quote_request ''A2'')] \<rparr>)"
  by (simp add: getQuote_def server_token_401_once_def sample_defs model_defs)

text \<open>
  C2. The claim: a request that is answered 401 or 403 on the first attempt and again on
  the retry raises the authentication error after the first retry, and is not retried a
  second time.

  The code does not retry a second time. It raises the authentication error when the
  answer to the retry has a JSON body other than \<^verbatim>\<open>null\<close>
  (\<open>auth_error_twice_is_raised\<close>). When the retry is answered 401 with the body
  \<^verbatim>\<open>null\<close>, the read of \<^verbatim>\<open>result.error\<close> in \<^verbatim>\<open>handleNotOk\<close> throws first, as under
  C4: the caller gets a TypeError, which \<^verbatim>\<open>doFetch\<close> has logged, and not the
  authentication error. Below, the server answers the first quote request with 401 and
  an error object, the refresh succeeds, and the retry is answered 401 with \<^verbatim>\<open>null\<close>.
\<close>

theorem retry_null_body_is_TypeError:
  "getQuote (Suc (Suc n)) (sample_env server_401_then_null) ''IBM'' sample_conn =
     Some (Thrown TypeError,
       sample_conn\<lparr> access_token := JStr ''A2'', refresh_token := JStr ''R2'',
         trace := [EvFetch (quote_request ''A1''), EvFetch refresh_request,
                   EvEmit ''token'' new_tokens, EvFetch (quote_request ''A2''),
                   EvConsoleError TypeError] \<rparr>)"
  by (simp add: getQuote_def server_401_then_null_def sample_defs model_defs)

text \<open>
  C3. The claim: a request that is answered 401 or 403 once, and whose retry succeeds,
  leads to exactly one refresh call and exactly one retry, and the result of the retry is
  returned.

  The code makes one retry and returns its result. It makes one refresh call when the
  refresh POST is not itself answered 401 or 403 (\<open>auth_error_once_is_retried\<close>). When
  it is, the refresh is refreshed and sent again, as under C1. Below, the quote request is
  answered 401 once and the token endpoint answers its first request with 403: the quote
  of the retry is returned, after three refresh POSTs and two \<^verbatim>\<open>token\<close> events.
\<close>

theorem one_auth_error_three_refresh_posts:
  "getQuote (Suc (Suc (Suc n))) (sample_env server_token_403_once) ''IBM'' sample_conn =
     Some (Returned quote,
       sample_conn\<lparr> access_token := JStr ''A2'', refresh_token := JStr ''R2'',
         trace := [EvFetch (quote_request ''A1''),
                   EvFetch refresh_request,
                   EvFetch refresh_request, EvEmit ''token'' new_tokens,
                   EvFetch refresh_request, EvEmit ''token'' new_tokens,
                   EvFetch (quote_request ''A2'')] \<rparr>)"
  by (simp add: getQuote_def server_token_403_once_def sample_defs model_defs)

section \<open>The classification of responses\<close>

text \<open>
  C4. The claim: a 2xx response yields the parsed body; a 401 or 403 response raises the
  authentication error whose message is the serialized body; every other response from
  300 on yields the parsed body as an ordinary result.

  The parts on 2xx, on 3xx and on the other 4xx and 5xx responses hold (\<open>dispatch_ok\<close>,
  \<open>dispatch_passed\<close>), and so does the part on 401 and 403 for every body but one
  (\<open>dispatch_auth\<close>). For a 401 or 403 response whose JSON body is \<^verbatim>\<open>null\<close> the code
  throws a TypeError instead: \<^verbatim>\<open>debug(result.error)\<close> reads a property of \<^verbatim>\<open>null\<close>
  before the authentication error is built. \<^verbatim>\<open>doFetch\<close> logs that error and throws it
  again, and nothing is refreshed or retried.
\<close>

theorem null_body_401_is_TypeError:
  "handleNotOk E (Response 401 (Some JNull)) = Thrown TypeError
   \<and> handleNotOk E (Response 403 (Some JNull)) = Thrown TypeError
   \<and> getQuote (Suc n) (sample_env server_401_null) ''IBM'' sample_conn =
       Some (Thrown TypeError,
         sample_conn\<lparr>trace := [EvFetch (quote_request ''A1''), EvConsoleError TypeError]\<rparr>)"
  by (simp add: getQuote_def server_401_null_def sample_defs model_defs)

section \<open>The token exchanges\<close>

text \<open>
  C5. When the \<^verbatim>\<open>doFetch\<close> of an authorization-code exchange or of a refresh throws an
  error, the method logs it with \<^verbatim>\<open>console.error\<close> and returns \<^verbatim>\<open>undefined\<close>; neither
  method ever throws.
\<close>

theorem token_methods_swallow_errors:
  "(doFetch n E ''POST'' token_url JNull (JStr (code_payload E code st)) form_options st
      = Some (Thrown e, st')
    \<longrightarrow> getAccessToken n E code st = Some (Returned JUndefined, console_error e st'))
   \<and> (doFetch n E ''POST'' token_url JNull (JStr (refresh_payload E rt st)) form_options st
      = Some (Thrown e, st')
    \<longrightarrow> refreshAccessToken n E rt st = Some (Returned JUndefined, console_error e st'))
   \<and> getAccessToken n E code st \<noteq> Some (Thrown e, st')
   \<and> refreshAccessToken n E rt st \<noteq> Some (Thrown e, st')"
  by (auto simp: getAccessToken_def emit_def split: option.splits outcome.splits)

text \<open>
  With the server down, the HTTP call of either method fails; the error is logged by
  \<^verbatim>\<open>doFetch\<close> and by the method, and the method returns \<^verbatim>\<open>undefined\<close>.
\<close>

theorem token_methods_swallow_errors_witness:
  "doFetch (Suc 0) (sample_env server_down) ''POST'' token_url JNull
     (JStr (code_payload (sample_env server_down) (JStr ''c0de'') sample_conn)) form_options
     sample_conn
     = Some (Thrown (FetchError ''ECONNREFUSED''),
         sample_conn\<lparr>trace :=
           [EvFetch code_request, EvConsoleError (FetchError ''ECONNREFUSED'')]\<rparr>)
   \<and> getAccessToken (Suc 0) (sample_env server_down) (JStr ''c0de'') sample_conn
     = Some (Returned JUndefined,
         sample_conn\<lparr>trace :=
           [EvFetch code_request, EvConsoleError (FetchError ''ECONNREFUSED''),
            EvConsoleError (FetchError ''ECONNREFUSED'')]\<rparr>)
   \<and> doFetch (Suc 0) (sample_env server_down) ''POST'' token_url JNull
     (JStr (refresh_payload (sample_env server_down) (JStr ''R1'') sample_conn)) form_options
     sample_conn
     = Some (Thrown (FetchError ''ECONNREFUSED''),
         sample_conn\<lparr>trace :=
           [EvFetch refresh_request, EvConsoleError (FetchError ''ECONNREFUSED'')]\<rparr>)
   \<and> refreshAccessToken (Suc 0) (sample_env server_down) (JStr ''R1'') sample_conn
     = Some (Returned JUndefined,
         sample_conn\<lparr>trace :=
           [EvFetch refresh_request, EvConsoleError (FetchError ''ECONNREFUSED''),
            EvConsoleError (FetchError ''ECONNREFUSED'')]\<rparr>)"
proof -
  let ?E = "sample_env server_down"
  let ?e = "FetchError ''ECONNREFUSED''"
  let ?sc = "sample_conn\<lparr>trace := [EvFetch code_request, EvConsoleError ?e]\<rparr>"
  let ?sr = "sample_conn\<lparr>trace := [EvFetch refresh_request, EvConsoleError ?e]\<rparr>"
  have c: "doFetch (Suc 0) ?E ''POST'' token_url JNull
             (JStr (code_payload ?E (JStr ''c0de'') sample_conn)) form_options sample_conn
           = Some (Thrown ?e, ?sc)"
    by (simp add: server_down_def sample_defs model_defs)
  have r: "doFetch (Suc 0) ?E ''POST'' token_url JNull
             (JStr (refresh_payload ?E (JStr ''R1'') sample_conn)) form_options sample_conn
           = Some (Thrown ?e, ?sr)"
    by (simp add: server_down_def sample_defs model_defs)
  have "getAccessToken (Suc 0) ?E (JStr ''c0de'') sample_conn
          = Some (Returned JUndefined, console_error ?e ?sc)"
    using token_methods_swallow_errors
      [where n = "Suc 0" and E = ?E and code = "JStr ''c0de''" and st = sample_conn
         and e = ?e and st' = ?sc] c
    by blast
  moreover have "refreshAccessToken (Suc 0) ?E (JStr ''R1'') sample_conn
          = Some (Returned JUndefined, console_error ?e ?sr)"
    using token_methods_swallow_errors
      [where n = "Suc 0" and E = ?E and rt = "JStr ''R1''" and st = sample_conn
         and e = ?e and st' = ?sr] r
    by blast
  ultimately show ?thesis
    using c r by (simp add: console_error_def del: doFetch.simps refreshAccessToken.simps)
qed

text \<open>
  C7, as the code has it. The token POST of an authorization-code exchange is answered
  with a 2xx status and the JSON body \<open>b\<close> at the first attempt. \<^verbatim>\<open>getAccessToken\<close>
  makes that one HTTP call and then emits the \<^verbatim>\<open>token\<close> event once, with \<open>b\<close> as
  payload, before it returns. When the listeners return, it hands \<open>b\<close> to
  \<^verbatim>\<open>setCredentials\<close>, so that the truthy tokens of \<open>b\<close> are the connector's tokens
  afterwards, and returns \<open>b\<close>. When a listener throws, the error is logged, nothing is
  stored, and the method returns \<^verbatim>\<open>undefined\<close>.
\<close>

theorem getAccessToken_success:
  fixes E code st0 st b
  defines "post \<equiv> build_request E ''POST'' token_url JNull (JStr (code_payload E code st0))
                     form_options st"
  defines "emitted \<equiv> st\<lparr>trace := trace st @ [EvFetch post, EvEmit ''token'' b]\<rparr>"
  assumes boot: "bootstrap st0 = (None, st)"
    and resp: "fetch E (fetch_count (trace st)) post = Responded (Response s (Some b))"
    and ok: "200 \<le> s" "s < 300"
  shows "getAccessToken (Suc n) E code st0 =
           (case listeners E (emit_count (trace st)) ''token'' b of
              None \<Rightarrow> Some (Returned b, setCredentials b emitted)
            | Some ex \<Rightarrow> Some (Returned JUndefined, console_error ex emitted))
         \<and> trace (setCredentials b emitted) = trace st @ [EvFetch post, EvEmit ''token'' b]
         \<and> (\<forall>a. get_prop b ''access_token'' = Inr a \<and> truthy a
                \<longrightarrow> access_token (setCredentials b emitted) = a)
         \<and> (\<forall>r. get_prop b ''refresh_token'' = Inr r \<and> truthy r
                \<longrightarrow> refresh_token (setCredentials b emitted) = r)
         \<and> access_token (console_error ex emitted) = access_token st
         \<and> refresh_token (console_error ex emitted) = refresh_token st"
proof -
  have d: "dispatch E post st = (Returned b, st\<lparr>trace := trace st @ [EvFetch post]\<rparr>)"
    using resp ok by (rule dispatch_ok)
  have "doFetch (Suc n) E ''POST'' token_url JNull (JStr (code_payload E code st0))
          form_options st0
          = Some (Returned b, st\<lparr>trace := trace st @ [EvFetch post]\<rparr>)"
    using boot d unfolding post_def by (rule doFetch_returned)
  then have "getAccessToken (Suc n) E code st0 =
           (case listeners E (emit_count (trace st)) ''token'' b of
              None \<Rightarrow> Some (Returned b, setCredentials b emitted)
            | Some ex \<Rightarrow> Some (Returned JUndefined, console_error ex emitted))"
    by (simp add: getAccessToken_def emit_def emitted_def emit_count_def
        split: option.splits)
  then show ?thesis
    by (simp add: setCredentials_trace setCredentials_adopts emitted_def console_error_def)
qed

text \<open>
  The connector exchanges the code \<^verbatim>\<open>c0de\<close>, the listeners return: the issued tokens
  are emitted once, stored and returned.
\<close>

theorem getAccessToken_success_witness:
  "getAccessToken (Suc 0) (sample_env server_ok) (JStr ''c0de'') sample_conn
     = Some (Returned new_tokens,
         sample_conn
           \<lparr> access_token := JStr ''A2'', refresh_token := JStr ''R2'',
             trace := [EvFetch code_request, EvEmit ''token'' new_tokens] \<rparr>)"
proof -
  let ?E = "sample_env server_ok"
  have boot: "bootstrap sample_conn = (None, sample_conn)"
    by (simp add: sample_defs model_defs)
  have resp: "fetch ?E (fetch_count (trace sample_conn))
                (build_request ?E ''POST'' token_url JNull
                   (JStr (code_payload ?E (JStr ''c0de'') sample_conn)) form_options sample_conn)
              = Responded (Response 200 (Some new_tokens))"
    by (simp add: server_ok_def sample_defs model_defs)
  have ok: "(200::nat) \<le> 200" "(200::nat) < 300" by simp_all
  show ?thesis
    using getAccessToken_success [OF boot resp ok, where n = 0, THEN conjunct1]
    by (simp add: sample_defs model_defs)
qed

text \<open>
  C7, as it is claimed for every successful exchange, fails in two ways. With a listener
  that throws, the exchange that the server answered with 200 returns \<^verbatim>\<open>undefined\<close>
  and stores nothing. And when the token endpoint answers the first POST with 401 and
  issues tokens afterwards, the exchange succeeds on the retry of \<^verbatim>\<open>doFetch\<close>, with two
  \<^verbatim>\<open>token\<close> events: one of the refresh in between and one of the exchange.
\<close>

theorem getAccessToken_two_failures:
  "getAccessToken (Suc 0) (sample_env_failing_listener server_ok) (JStr ''c0de'') sample_conn
     = Some (Returned JUndefined,
         sample_conn\<lparr>trace := [EvFetch code_request, EvEmit ''token'' new_tokens,
                                EvConsoleError (OtherError ''listener failed'')]\<rparr>)
   \<and> getAccessToken (Suc (Suc 0)) (sample_env server_token_401_first) (JStr ''c0de'') sample_conn
     = Some (Returned new_tokens,
         sample_conn\<lparr> access_token := JStr ''A2'', refresh_token := JStr ''R2'',
           trace := [EvFetch code_request, EvFetch refresh_request,
                     EvEmit ''token'' new_tokens, EvFetch code_request,
                     EvEmit ''token'' new_tokens] \<rparr>)"
  by (simp add: getAccessToken_def server_ok_def server_token_401_first_def
      sample_defs model_defs)

text \<open>
  C9, as the code has it. The token endpoint answers an exchange or a refresh with a status
  other than 401 and 403, and with a JSON body \<open>b\<close>: the method emits the \<^verbatim>\<open>token\<close> event
  with \<open>b\<close> as payload. When the listeners return, it hands \<open>b\<close> to \<^verbatim>\<open>setCredentials\<close>
  and returns \<open>b\<close>; when a listener throws, the error is logged, \<open>b\<close> does not reach
  \<^verbatim>\<open>setCredentials\<close>, and the method returns \<^verbatim>\<open>undefined\<close>. The status does not occur
  in the result: an answer with status 400 and an answer with status 200 leave the same
  trace and the same connector when their bodies are the same. The last two parts say it
  of every body that the \<^verbatim>\<open>doFetch\<close> of the method returns, also after its retry.
  (The HTTP client resolves with final responses, whose status is 200 or more.)
\<close>

theorem token_error_body_emitted:
  fixes E code rt st0 st b
  defines "cpost \<equiv> build_request E ''POST'' token_url JNull (JStr (code_payload E code st0))
                      form_options st"
  defines "rpost \<equiv> build_request E ''POST'' token_url JNull (JStr (refresh_payload E rt st0))
                      form_options st"
  assumes boot: "bootstrap st0 = (None, st)"
    and status: "200 \<le> s" "s \<noteq> 401" "s \<noteq> 403"
  shows "(fetch E (fetch_count (trace st)) cpost = Responded (Response s (Some b))
          \<longrightarrow> getAccessToken (Suc n) E code st0 =
                (case listeners E (emit_count (trace st)) ''token'' b of
                   None \<Rightarrow>
                     Some (Returned b,
                       setCredentials b
                         (st\<lparr>trace := trace st @ [EvFetch cpost, EvEmit ''token'' b]\<rparr>))
                 | Some ex \<Rightarrow>
                     Some (Returned JUndefined,
                       st\<lparr>trace := trace st @
                            [EvFetch cpost, EvEmit ''token'' b, EvConsoleError ex]\<rparr>)))
       \<and> (fetch E (fetch_count (trace st)) rpost = Responded (Response s (Some b))
          \<longrightarrow> refreshAccessToken (Suc n) E rt st0 =
                (case listeners E (emit_count (trace st)) ''token'' b of
                   None \<Rightarrow>
                     Some (Returned b,
                       setCredentials b
                         (st\<lparr>trace := trace st @ [EvFetch rpost, EvEmit ''token'' b]\<rparr>))
                 | Some ex \<Rightarrow>
                     Some (Returned JUndefined,
                       st\<lparr>trace := trace st @
                            [EvFetch rpost, EvEmit ''token'' b, EvConsoleError ex]\<rparr>)))
       \<and> (doFetch k E ''POST'' token_url JNull (JStr (code_payload E code st0)) form_options st0
            = Some (Returned b, st')
          \<longrightarrow> getAccessToken k E code st0 =
                (case listeners E (emit_count (trace st')) ''token'' b of
                   None \<Rightarrow>
                     Some (Returned b,
                       setCredentials b (st'\<lparr>trace := trace st' @ [EvEmit ''token'' b]\<rparr>))
                 | Some ex \<Rightarrow>
                     Some (Returned JUndefined,
                       st'\<lparr>trace := trace st' @ [EvEmit ''token'' b, EvConsoleError ex]\<rparr>)))
       \<and> (doFetch k E ''POST'' token_url JNull (JStr (refresh_payload E rt st0)) form_options st0
            = Some (Returned b, st')
          \<longrightarrow> refreshAccessToken k E rt st0 =
                (case listeners E (emit_count (trace st')) ''token'' b of
                   None \<Rightarrow>
                     Some (Returned b,
                       setCredentials b (st'\<lparr>trace := trace st' @ [EvEmit ''token'' b]\<rparr>))
                 | Some ex \<Rightarrow>
                     Some (Returned JUndefined,
                       st'\<lparr>trace := trace st' @ [EvEmit ''token'' b, EvConsoleError ex]\<rparr>)))"
proof -
  have pass: "doFetch (Suc n) E ''POST'' token_url JNull (JStr pl) form_options st0
                = Some (Returned b,
                    st\<lparr>trace := trace st @
                      [EvFetch (build_request E ''POST'' token_url JNull (JStr pl)
                                  form_options st)]\<rparr>)"
    if "fetch E (fetch_count (trace st))
          (build_request E ''POST'' token_url JNull (JStr pl) form_options st)
          = Responded (Response s (Some b))" for pl
    using boot dispatch_returned [OF that status] by (rule doFetch_returned)
  have first: "fetch E (fetch_count (trace st)) cpost = Responded (Response s (Some b))
          \<longrightarrow> getAccessToken (Suc n) E code st0 =
                (case listeners E (emit_count (trace st)) ''token'' b of
                   None \<Rightarrow>
                     Some (Returned b,
                       setCredentials b
                         (st\<lparr>trace := trace st @ [EvFetch cpost, EvEmit ''token'' b]\<rparr>))
                 | Some ex \<Rightarrow>
                     Some (Returned JUndefined,
                       st\<lparr>trace := trace st @
                            [EvFetch cpost, EvEmit ''token'' b, EvConsoleError ex]\<rparr>))"
    using pass [of "code_payload E code st0"]
    by (auto simp: getAccessToken_def emit_def emit_count_def console_error_def cpost_def
        simp del: doFetch.simps split: option.splits)
  have second: "fetch E (fetch_count (trace st)) rpost = Responded (Response s (Some b))
          \<longrightarrow> refreshAccessToken (Suc n) E rt st0 =
                (case listeners E (emit_count (trace st)) ''token'' b of
                   None \<Rightarrow>
                     Some (Returned b,
                       setCredentials b
                         (st\<lparr>trace := trace st @ [EvFetch rpost, EvEmit ''token'' b]\<rparr>))
                 | Some ex \<Rightarrow>
                     Some (Returned JUndefined,
                       st\<lparr>trace := trace st @
                            [EvFetch rpost, EvEmit ''token'' b, EvConsoleError ex]\<rparr>))"
    using pass [of "refresh_payload E rt st0"]
    by (auto simp: emit_def emit_count_def console_error_def rpost_def
        simp del: doFetch.simps split: option.splits)
  have third: "doFetch k E ''POST'' token_url JNull (JStr (code_payload E code st0))
            form_options st0 = Some (Returned b, st')
          \<longrightarrow> getAccessToken k E code st0 =
                (case listeners E (emit_count (trace st')) ''token'' b of
                   None \<Rightarrow>
                     Some (Returned b,
                       setCredentials b (st'\<lparr>trace := trace st' @ [EvEmit ''token'' b]\<rparr>))
                 | Some ex \<Rightarrow>
                     Some (Returned JUndefined,
                       st'\<lparr>trace := trace st' @ [EvEmit ''token'' b, EvConsoleError ex]\<rparr>))"
    by (auto simp: getAccessToken_def emit_def console_error_def
        simp del: doFetch.simps split: option.splits)
  have fourth: "doFetch k E ''POST'' token_url JNull (JStr (refresh_payload E rt st0))
            form_options st0 = Some (Returned b, st')
          \<longrightarrow> refreshAccessToken k E rt st0 =
                (case listeners E (emit_count (trace st')) ''token'' b of
                   None \<Rightarrow>
                     Some (Returned b,
                       setCredentials b (st'\<lparr>trace := trace st' @ [EvEmit ''token'' b]\<rparr>))
                 | Some ex \<Rightarrow>
                     Some (Returned JUndefined,
                       st'\<lparr>trace := trace st' @ [EvEmit ''token'' b, EvConsoleError ex]\<rparr>))"
    by (auto simp: emit_def console_error_def simp del: doFetch.simps split: option.splits)
  from first second third fourth show ?thesis by (intro conjI)
qed

text \<open>
  A token endpoint that rejects every grant with status 400, and listeners that return:
  the error body is emitted as a \<^verbatim>\<open>token\<close> event by both methods.
\<close>

theorem token_error_body_emitted_witness:
  "getAccessToken (Suc 0) (sample_env server_rejecting) (JStr ''c0de'') sample_conn
     = Some (Returned invalid_grant,
         sample_conn\<lparr>trace := [EvFetch code_request, EvEmit ''token'' invalid_grant]\<rparr>)
   \<and> refreshAccessToken (Suc 0) (sample_env server_rejecting) (JStr ''R1'') sample_conn
     = Some (Returned invalid_grant,
         sample_conn\<lparr>trace := [EvFetch refresh_request, EvEmit ''token'' invalid_grant]\<rparr>)"
proof -
  let ?E = "sample_env server_rejecting"
  have boot: "bootstrap sample_conn = (None, sample_conn)"
    by (simp add: sample_defs model_defs)
  have status: "(200::nat) \<le> 400" "(400::nat) \<noteq> 401" "(400::nat) \<noteq> 403" by simp_all
  have c: "fetch ?E (fetch_count (trace sample_conn))
             (build_request ?E ''POST'' token_url JNull
                (JStr (code_payload ?E (JStr ''c0de'') sample_conn)) form_options sample_conn)
           = Responded (Response 400 (Some invalid_grant))"
    by (simp add: sample_env_def server_rejecting_def)
  have r: "fetch ?E (fetch_count (trace sample_conn))
             (build_request ?E ''POST'' token_url JNull
                (JStr (refresh_payload ?E (JStr ''R1'') sample_conn)) form_options sample_conn)
           = Responded (Response 400 (Some invalid_grant))"
    by (simp add: sample_env_def server_rejecting_def)
  show ?thesis
    using token_error_body_emitted
      [OF boot status, where n = 0 and E = ?E and code = "JStr ''c0de''" and rt = "JStr ''R1''"
         and b = invalid_grant and k = 0] c r
    by (simp add: sample_defs model_defs del: doFetch.simps(2) refreshAccessToken.simps)
qed

text \<open>
  C9, as it is claimed without a condition on the listeners, fails: the token endpoint
  answers a refresh with status 400 and a body that has tokens, and a listener throws. The
  body is emitted, but it does not reach \<^verbatim>\<open>setCredentials\<close>, which would have replaced
  the access token \<^verbatim>\<open>A1\<close> by \<^verbatim>\<open>A2\<close>.
\<close>

theorem token_error_body_not_stored:
  "refreshAccessToken (Suc 0) (sample_env_failing_listener server_400_tokens) (JStr ''R1'')
     sample_conn
     = Some (Returned JUndefined,
         sample_conn\<lparr>trace := [EvFetch refresh_request, EvEmit ''token'' new_tokens,
                                EvConsoleError (OtherError ''listener failed'')]\<rparr>)
   \<and> access_token sample_conn = JStr ''A1''
   \<and> access_token (setCredentials new_tokens sample_conn) = JStr ''A2''"
  by (simp add: server_400_tokens_def sample_defs model_defs)

section \<open>The credential initializer\<close>




text \<open>
  C10. The connector holds no access token and its initializer returns \<^verbatim>\<open>null\<close> or
  \<^verbatim>\<open>undefined\<close>: every domain call throws the TypeError of the read of
  \<^verbatim>\<open>creds.access_token\<close>, after the invocation of the initializer and before any HTTP
  call, and leaves the connector without a token.
\<close>

theorem null_credentials_TypeError:
  assumes "\<not> truthy (access_token st)"
    and "credentialInitializer st = Some f"
    and "f (init_count (trace st)) = InitReturns v"
    and "v = JNull \<or> v = JUndefined"
  shows "api (Suc n) E c st = Some (Thrown TypeError, st\<lparr>trace := trace st @ [EvInit]\<rparr>)"
proof -
  have "bootstrap st = (Some TypeError, st\<lparr>trace := trace st @ [EvInit]\<rparr>)"
    using assms by (auto simp: bootstrap_def Let_def)
  then have "doFetch (Suc n) E m u q p opts st
               = Some (Thrown TypeError, st\<lparr>trace := trace st @ [EvInit]\<rparr>)"
    for m u q p opts
    by simp
  then show ?thesis
    by (cases c) (simp_all only: api.simps api_defs)
qed

theorem null_credentials_TypeError_witness:
  "api (Suc 0) (sample_env server_ok) (GetQuote ''IBM'') (TDAConnector ''app'' ''cb'' (Some init_null))
     = Some (Thrown TypeError, (TDAConnector ''app'' ''cb'' (Some init_null))\<lparr>trace := [EvInit]\<rparr>)"
proof -
  let ?st = "TDAConnector ''app'' ''cb'' (Some init_null)"
  have none: "\<not> truthy (access_token ?st)" by (simp add: TDAConnector_def)
  have ini: "credentialInitializer ?st = Some init_null" by (simp add: TDAConnector_def)
  have first: "init_null (init_count (trace ?st)) = InitReturns JNull"
    by (simp add: init_null_def)
  have nul: "JNull = JNull \<or> JNull = JUndefined" by simp
  show ?thesis
    using null_credentials_TypeError [OF none ini first nul, where n = 0]
    by (simp add: TDAConnector_def del: api.simps)
qed

section \<open>Setting credentials\<close>

text \<open>
  C8, as the code has it. \<^verbatim>\<open>setCredentials\<close> with an object overwrites a token when the
  object has that field with a truthy value, and leaves it as it was when the field is
  absent or falsy (an empty string, \<^verbatim>\<open>null\<close>, zero); nothing else of the connector
  changes. With an object that has a refresh token only, the access token stays.
\<close>

theorem setCredentials_partial_update:
  "setCredentials (JObj kvs) st =
     st\<lparr> access_token := (case map_of kvs ''access_token'' of
                             Some a \<Rightarrow> if truthy a then a else access_token st
                           | None \<Rightarrow> access_token st),
         refresh_token := (case map_of kvs ''refresh_token'' of
                             Some r \<Rightarrow> if truthy r then r else refresh_token st
                           | None \<Rightarrow> refresh_token st) \<rparr>
   \<and> access_token (setCredentials (JObj [(''refresh_token'', r)]) st) = access_token st"
  by (simp add: setCredentials_def Let_def split: option.splits)

theorem setCredentials_partial_update_witness:
  "setCredentials (JObj [(''refresh_token'', JStr ''R9'')]) sample_conn
     = sample_conn\<lparr>refresh_token := JStr ''R9''\<rparr>"
  using setCredentials_partial_update [of "[(''refresh_token'', JStr ''R9'')]" sample_conn]
  by (simp add: sample_conn_def TDAConnector_def)

text \<open>
  C8, as it is claimed for every field present in the argument, fails: an access token
  that is present as the empty string does not overwrite the held one.
\<close>

theorem setCredentials_empty_field_kept:
  "access_token (setCredentials (JObj [(''access_token'', JStr '''')]) sample_conn) \<noteq> JStr ''''"
  by (simp add: setCredentials_def sample_conn_def TDAConnector_def Let_def)

end
